theory Spec2Isabelle
  imports Complex_Main "HOL-Library.Multiset"
begin

section \<open>The test-report aggregator \<^verbatim>\<open>scripts/generate_network_report.py\<close>\<close>

text \<open>
  The script scans a directory for XML test reports, walks the \<^verbatim>\<open>testcase\<close> elements of
  every report that parses, updates a dictionary of metrics and dumps it as JSON.
  The embedding follows the script line by line. What the script gets from libraries is
  made explicit as data:
  \<^item> what \<^verbatim>\<open>Path(test_dir).glob("**/*.xml")\<close> enumerates is a list of files, in the order
    in which the operating system hands them out;
  \<^item> what \<^verbatim>\<open>ET.parse\<close> makes of one file is either a \<^verbatim>\<open>ParseError\<close> with its message or
    the \<^verbatim>\<open>testcase\<close> elements found by \<^verbatim>\<open>root.findall('.//testcase')\<close>, in document order;
  \<^item> uncaught exceptions are values of a sum type;
  \<^item> \<^verbatim>\<open>print\<close> appends a line to the standard output, which is threaded through.
  Python's floats are modelled by exact reals: rounding and overflow are not followed.
\<close>

subsection \<open>Python strings\<close>

text \<open>\<^verbatim>\<open>hay.startswith(needle)\<close>.\<close>

fun starts_with :: "string \<Rightarrow> string \<Rightarrow> bool" where
  "starts_with [] hay = True"
| "starts_with (c # cs) [] = False"
| "starts_with (c # cs) (h # hs) = (c = h \<and> starts_with cs hs)"

text \<open>\<^verbatim>\<open>needle in hay\<close> on two strings: \<open>needle\<close> occurs in \<open>hay\<close> as a contiguous block.\<close>

fun str_in :: "string \<Rightarrow> string \<Rightarrow> bool" where
  "str_in needle [] = (needle = [])"
| "str_in needle (h # hs) = (starts_with needle (h # hs) \<or> str_in needle hs)"

subsection \<open>The built-in \<^verbatim>\<open>float\<close> on a string\<close>

text \<open>
  \<^verbatim>\<open>float(s)\<close> strips white space and then accepts
  \<^verbatim>\<open>[sign] (digitpart ["." [digitpart]] | "." digitpart) [("e"|"E") [sign] digitpart]\<close>
  where \<^verbatim>\<open>digitpart\<close> is a run of digits that may be grouped by single underscores; anything
  else raises \<^verbatim>\<open>ValueError\<close>. (\<open>OSError\<close> is what a failing \<^verbatim>\<open>open\<close> raises; \<^verbatim>\<open>float\<close>
  never does.) Two kinds of input leave the model, and are marked
  \<open>Unmodelled\<close> rather than given a value or an exception they do not have: the literals
  \<^verbatim>\<open>inf\<close>, \<^verbatim>\<open>infinity\<close> and \<^verbatim>\<open>nan\<close>, which denote no real number, and strings with
  characters outside ASCII, among which Python knows further digits and spaces.
\<close>

datatype stop = ValueError | OSError | Unmodelled

definition is_space :: "char \<Rightarrow> bool" where
  "is_space c = (c = CHR '' '' \<or> (9 \<le> (of_char c :: nat) \<and> (of_char c :: nat) \<le> 13)
     \<or> (28 \<le> (of_char c :: nat) \<and> (of_char c :: nat) \<le> 31))"

definition is_digit :: "char \<Rightarrow> bool" where
  "is_digit c = (48 \<le> (of_char c :: nat) \<and> (of_char c :: nat) \<le> 57)"

definition is_ascii :: "char \<Rightarrow> bool" where
  "is_ascii c = ((of_char c :: nat) < 128)"

definition lower_char :: "char \<Rightarrow> char" where
  "lower_char c = (if 65 \<le> (of_char c :: nat) \<and> (of_char c :: nat) \<le> 90
     then char_of ((of_char c :: nat) + 32) else c)"

definition strip :: "string \<Rightarrow> string" where
  "strip s = rev (dropWhile is_space (rev (dropWhile is_space s)))"

fun digitpart :: "string \<Rightarrow> bool" where
  "digitpart [] = False"
| "digitpart [c] = is_digit c"
| "digitpart (c # d # cs) =
     (is_digit c \<and> (if d = CHR ''_'' then digitpart cs else digitpart (d # cs)))"

definition digits :: "string \<Rightarrow> string" where
  "digits s = filter is_digit s"

definition digits_value :: "string \<Rightarrow> nat" where
  "digits_value s = foldl (\<lambda>n c. 10 * n + ((of_char c :: nat) - 48)) 0 (digits s)"

definition is_sign :: "char \<Rightarrow> bool" where
  "is_sign c = (c = CHR ''+'' \<or> c = CHR ''-'')"

definition unsigned :: "string \<Rightarrow> string" where
  "unsigned s = (case s of [] \<Rightarrow> [] | c # cs \<Rightarrow> if is_sign c then cs else s)"

definition negative :: "string \<Rightarrow> bool" where
  "negative s = (case s of [] \<Rightarrow> False | c # cs \<Rightarrow> c = CHR ''-'')"

definition is_e :: "char \<Rightarrow> bool" where
  "is_e c = (c = CHR ''e'' \<or> c = CHR ''E'')"

definition number_ok :: "string \<Rightarrow> bool" where
  "number_ok m =
     (let ip = takeWhile (\<lambda>c. c \<noteq> CHR ''.'') m; rest = dropWhile (\<lambda>c. c \<noteq> CHR ''.'') m
      in case rest of
           [] \<Rightarrow> digitpart ip
         | dot # fp \<Rightarrow> (ip = [] \<and> digitpart fp) \<or> (digitpart ip \<and> (fp = [] \<or> digitpart fp)))"

definition number_value :: "string \<Rightarrow> real" where
  "number_value m =
     (let ip = takeWhile (\<lambda>c. c \<noteq> CHR ''.'') m; fp = dropWhile (\<lambda>c. c \<noteq> CHR ''.'') m
      in real (digits_value ip) + real (digits_value fp) / 10 ^ length (digits fp))"

definition exponent_ok :: "string \<Rightarrow> bool" where
  "exponent_ok x = (case x of [] \<Rightarrow> True | e # ds \<Rightarrow> digitpart (unsigned ds))"

definition scale :: "string \<Rightarrow> real \<Rightarrow> real" where
  "scale x v =
     (case x of
        [] \<Rightarrow> v
      | e # ds \<Rightarrow> if negative ds then v / 10 ^ digits_value ds else v * 10 ^ digits_value ds)"

definition py_float :: "string \<Rightarrow> stop + real" where
  "py_float s =
     (if \<not> list_all is_ascii s then Inl Unmodelled
      else
        let t = strip s; body = unsigned t;
            m = takeWhile (\<lambda>c. \<not> is_e c) body; x = dropWhile (\<lambda>c. \<not> is_e c) body
        in if map lower_char body \<in> set [''inf'', ''infinity'', ''nan''] then Inl Unmodelled
           else if number_ok m \<and> exponent_ok x
           then Inr ((if negative t then - 1 else 1) * scale x (number_value m))
           else Inl ValueError)"

subsection \<open>The input: the directory and its reports\<close>

text \<open>
  One \<^verbatim>\<open>testcase\<close> element, as far as the script looks at it: the three attributes
  read with \<^verbatim>\<open>testcase.get\<close> (\<open>None\<close> when the attribute is absent), the result of
  \<^verbatim>\<open>testcase.find('system-out')\<close> (\<open>None\<close> when there is no such child, otherwise the
  child's \<^verbatim>\<open>text\<close>, itself \<open>None\<close> for a child without text) and whether
  \<^verbatim>\<open>testcase.find('failure')\<close> finds a child.
\<close>

record element =
  get_name :: "string option"
  get_classname :: "string option"
  get_time :: "string option"
  find_system_out :: "string option option"
  find_failure :: bool

text \<open>What \<^verbatim>\<open>ET.parse\<close> makes of a file.\<close>

datatype parsed = ParseError string | Testcases "element list"

type_synonym xml_file = "string \<times> parsed"

text \<open>
  The directory named on the command line. \<^verbatim>\<open>Path.glob\<close> raises nothing for a path that
  does not exist or cannot be read: it enumerates no file.
\<close>

datatype tree = Missing | Unreadable | Directory "xml_file list"

fun glob :: "tree \<Rightarrow> xml_file list" where
  "glob Missing = []"
| "glob Unreadable = []"
| "glob (Directory fs) = fs"

subsection \<open>The metrics dictionary\<close>

text \<open>
  The dictionary has a fixed set of keys, so it is a record of records. The keys \<^verbatim>\<open>min\<close>,
  \<^verbatim>\<open>max\<close> and \<^verbatim>\<open>class\<close> are the fields \<open>min_key\<close>, \<open>max_key\<close> and \<open>class_key\<close>. The
  average starts as the integer 0 and becomes a float when it is computed; the other
  numbers of the dictionary stay integers.
\<close>

datatype number = PyInt int | PyFloat real

datatype status = PASS | FAIL

record latency_dict =
  average :: number
  min_key :: int
  max_key :: int
  samples :: int

record bandwidth_dict =
  upstream :: int
  downstream :: int
  peak :: int

record scenarios_dict =
  twoPlayers :: bool
  threePlayers :: bool
  fourPlayers :: bool

record test_dict =
  name :: string
  class_key :: string
  status :: status
  duration :: real

record metrics =
  latency :: latency_dict
  bandwidth :: bandwidth_dict
  scenarios :: scenarios_dict
  tests :: "test_dict list"

definition initial_metrics :: metrics where
  "initial_metrics =
     \<lparr>latency = \<lparr>average = PyInt 0, min_key = 0, max_key = 0, samples = 0\<rparr>,
      bandwidth = \<lparr>upstream = 0, downstream = 0, peak = 0\<rparr>,
      scenarios = \<lparr>twoPlayers = False, threePlayers = False, fourPlayers = False\<rparr>,
      tests = []\<rparr>"

subsection \<open>\<^verbatim>\<open>parse_test_results\<close>\<close>

text \<open>The body of \<^verbatim>\<open>if system_out is not None and system_out.text:\<close> (lines 43 to 55).\<close>

definition track_output :: "string \<Rightarrow> string \<Rightarrow> metrics \<Rightarrow> metrics" where
  "track_output test_name output m =
     (let m1 = (if str_in ''Latency'' output \<or> str_in ''latency'' output
                then m\<lparr>latency := (latency m)\<lparr>samples := samples (latency m) + 1\<rparr>\<rparr>
                else m)
      in if str_in ''TwoPlayers'' test_name \<and> str_in ''PASS'' output
         then m1\<lparr>scenarios := (scenarios m1)\<lparr>twoPlayers := True\<rparr>\<rparr>
         else if str_in ''ThreePlayer'' test_name \<and> str_in ''PASS'' output
         then m1\<lparr>scenarios := (scenarios m1)\<lparr>threePlayers := True\<rparr>\<rparr>
         else if str_in ''FourPlayer'' test_name \<and> str_in ''PASS'' output
         then m1\<lparr>scenarios := (scenarios m1)\<lparr>fourPlayers := True\<rparr>\<rparr>
         else m1)"

text \<open>\<^verbatim>\<open>float(testcase.get('time', 0))\<close>: the default is the integer 0, and \<^verbatim>\<open>float(0)\<close> is 0.0.\<close>

definition time_of :: "element \<Rightarrow> stop + real" where
  "time_of testcase = (case get_time testcase of None \<Rightarrow> Inr 0 | Some s \<Rightarrow> py_float s)"

text \<open>One round of the inner loop (lines 36 to 66).\<close>

definition process_testcase :: "element \<Rightarrow> metrics \<Rightarrow> stop + metrics" where
  "process_testcase testcase m =
     (let test_name = (case get_name testcase of None \<Rightarrow> [] | Some s \<Rightarrow> s);
          classname = (case get_classname testcase of None \<Rightarrow> [] | Some s \<Rightarrow> s)
      in case time_of testcase of
           Inl e \<Rightarrow> Inl e
         | Inr time \<Rightarrow>
             let m1 = (case find_system_out testcase of
                         Some (Some output) \<Rightarrow>
                           if output \<noteq> [] then track_output test_name output m else m
                       | _ \<Rightarrow> m)
             in Inr (m1\<lparr>tests := tests m1 @
                      [\<lparr>name = test_name, class_key = classname,
                        status = (if find_failure testcase then FAIL else PASS),
                        duration = time\<rparr>]\<rparr>))"

fun process_testcases :: "element list \<Rightarrow> metrics \<Rightarrow> stop + metrics" where
  "process_testcases [] m = Inr m"
| "process_testcases (testcase # rest) m =
     (case process_testcase testcase m of
        Inl e \<Rightarrow> Inl e
      | Inr m' \<Rightarrow> process_testcases rest m')"

text \<open>
  The outer loop (lines 29 to 70). A \<^verbatim>\<open>ParseError\<close> is caught, reported and the loop goes
  on; any other exception leaves the function.
\<close>

fun process_files :: "xml_file list \<Rightarrow> metrics \<Rightarrow> string list \<Rightarrow> (stop + metrics) \<times> string list" where
  "process_files [] m out = (Inr m, out)"
| "process_files ((xml_file, ParseError e) # rest) m out =
     process_files rest m (out @ [''Error parsing '' @ xml_file @ '': '' @ e])"
| "process_files ((xml_file, Testcases tcs) # rest) m out =
     (case process_testcases tcs m of
        Inl e \<Rightarrow> (Inl e, out)
      | Inr m' \<Rightarrow> process_files rest m' out)"

text \<open>Lines 73 to 75. \<^verbatim>\<open>sum\<close> adds from the left, starting at 0.\<close>

definition calculate_averages :: "metrics \<Rightarrow> metrics" where
  "calculate_averages m =
     (if tests m \<noteq> []
      then let total_time = foldl (+) 0 (map duration (tests m))
           in m\<lparr>latency := (latency m)\<lparr>average := PyFloat (total_time / real (length (tests m)))\<rparr>\<rparr>
      else m)"

definition parse_test_results :: "string \<Rightarrow> tree \<Rightarrow> (stop + metrics) \<times> string list" where
  "parse_test_results test_dir t =
     (let xml_files = glob t
      in if xml_files = [] then (Inr initial_metrics, [''No test results found in '' @ test_dir])
         else case process_files xml_files initial_metrics [] of
                (Inl e, out) \<Rightarrow> (Inl e, out)
              | (Inr m, out) \<Rightarrow> (Inr (calculate_averages m), out))"

subsection \<open>\<^verbatim>\<open>json.dump\<close> and \<^verbatim>\<open>main\<close>\<close>

text \<open>
  The JSON document that \<^verbatim>\<open>json.dump(metrics, f, indent=2)\<close> writes, as a tree: every key
  of every dictionary is emitted, in insertion order. The layout in bytes (indentation,
  the digits of a float) is the \<^verbatim>\<open>json\<close> module's and is not followed.
\<close>

datatype json =
    JBool bool
  | JInt int
  | JFloat real
  | JString string
  | JArray "json list"
  | JObject "(string \<times> json) list"

fun number_json :: "number \<Rightarrow> json" where
  "number_json (PyInt i) = JInt i"
| "number_json (PyFloat x) = JFloat x"

fun status_json :: "status \<Rightarrow> json" where
  "status_json PASS = JString ''PASS''"
| "status_json FAIL = JString ''FAIL''"

definition test_json :: "test_dict \<Rightarrow> json" where
  "test_json e =
     JObject [(''name'', JString (name e)), (''class'', JString (class_key e)),
              (''status'', status_json (status e)), (''duration'', JFloat (duration e))]"

definition to_json :: "metrics \<Rightarrow> json" where
  "to_json m =
     JObject
       [(''latency'',
           JObject [(''average'', number_json (average (latency m))),
                    (''min'', JInt (min_key (latency m))),
                    (''max'', JInt (max_key (latency m))),
                    (''samples'', JInt (samples (latency m)))]),
        (''bandwidth'',
           JObject [(''upstream'', JInt (upstream (bandwidth m))),
                    (''downstream'', JInt (downstream (bandwidth m))),
                    (''peak'', JInt (peak (bandwidth m)))]),
        (''scenarios'',
           JObject [(''twoPlayers'', JBool (twoPlayers (scenarios m))),
                    (''threePlayers'', JBool (threePlayers (scenarios m))),
                    (''fourPlayers'', JBool (fourPlayers (scenarios m)))]),
        (''tests'', JArray (map test_json (tests m)))]"

text \<open>Reading a field of a JSON document along a path of keys.\<close>

fun member :: "json \<Rightarrow> string \<Rightarrow> json option" where
  "member (JObject kvs) k = map_of kvs k"
| "member (JBool b) k = None"
| "member (JInt i) k = None"
| "member (JFloat x) k = None"
| "member (JString s) k = None"
| "member (JArray js) k = None"

fun at_path :: "string list \<Rightarrow> json \<Rightarrow> json option" where
  "at_path [] j = Some j"
| "at_path (k # ks) j = (case member j k of None \<Rightarrow> None | Some j' \<Rightarrow> at_path ks j')"

text \<open>
  What one run of the program leaves behind: the lines on standard output (\<open>Dump j\<close>
  stands for the text of \<^verbatim>\<open>json.dumps(j, indent=2)\<close>), the directory that was scanned if
  the scan was reached, the file written with its content if there is one, and how the
  process ended: \<^verbatim>\<open>sys.exit\<close> with a code, a normal end (code 0) or an uncaught exception.
\<close>

datatype line = Text string | Dump json

datatype ending = Exit nat | Traceback stop

record outcome =
  stdout :: "line list"
  scanned :: "string option"
  written :: "(string \<times> json) option"
  ending :: ending

definition usage :: string where
  "usage = ''Usage: generate_network_report.py <test_results_dir> [--output output.json]''"

text \<open>
  \<^verbatim>\<open>sys.argv.index(x)\<close>, the first position of \<open>x\<close>. The script calls it under the guard
  \<^verbatim>\<open>x in sys.argv\<close>, so the \<^verbatim>\<open>ValueError\<close> of an absent item cannot happen there.
\<close>

fun index :: "string list \<Rightarrow> string \<Rightarrow> nat" where
  "index [] x = 0"
| "index (a # as) x = (if a = x then 0 else Suc (index as x))"

text \<open>
  \<open>main argv trees writable\<close>: \<open>trees\<close> gives the state of the file system under each
  path, \<open>writable\<close> says for which paths \<^verbatim>\<open>open(path, 'w')\<close> succeeds.
\<close>

definition main :: "string list \<Rightarrow> (string \<Rightarrow> tree) \<Rightarrow> (string \<Rightarrow> bool) \<Rightarrow> outcome" where
  "main argv trees writable =
     (if length argv < 2
      then \<lparr>stdout = [Text usage], scanned = None, written = None, ending = Exit 1\<rparr>
      else
        let test_dir = argv ! 1;
            output_file =
              (if ''--output'' \<in> set argv
               then let idx = index argv ''--output''
                    in if idx + 1 < length argv then argv ! (idx + 1) else ''network_metrics.json''
               else ''network_metrics.json'')
        in case parse_test_results test_dir (trees test_dir) of
             (Inl e, out) \<Rightarrow>
               \<lparr>stdout = map Text out, scanned = Some test_dir, written = None,
                ending = Traceback e\<rparr>
           | (Inr metrics, out) \<Rightarrow>
               if writable output_file
               then \<lparr>stdout = map Text out @
                        [Text (''Network metrics report generated: '' @ output_file),
                         Dump (to_json metrics)],
                     scanned = Some test_dir,
                     written = Some (output_file, to_json metrics),
                     ending = Exit 0\<rparr>
               else \<lparr>stdout = map Text out, scanned = Some test_dir, written = None,
                     ending = Traceback OSError\<rparr>)"

subsection \<open>The records of the specification\<close>

text \<open>
  The specification speaks of the test-case records collected in a run and of their
  name, group, status and diagnostic text. These are the fields of a \<^verbatim>\<open>testcase\<close> element
  as the script reads them, and the records collected are the elements of the reports
  that parse, in the order of the enumeration.
\<close>

definition name_of :: "element \<Rightarrow> string" where
  "name_of tc = (case get_name tc of None \<Rightarrow> [] | Some s \<Rightarrow> s)"

definition class_of :: "element \<Rightarrow> string" where
  "class_of tc = (case get_classname tc of None \<Rightarrow> [] | Some s \<Rightarrow> s)"

text \<open>The diagnostic text; an absent block and an empty one are both the empty string.\<close>

definition text_of :: "element \<Rightarrow> string" where
  "text_of tc = (case find_system_out tc of Some (Some s) \<Rightarrow> s | _ \<Rightarrow> [])"

definition status_of :: "element \<Rightarrow> status" where
  "status_of tc = (if find_failure tc then FAIL else PASS)"

text \<open>The record of an element: it exists when the duration can be read.\<close>

definition record_of :: "element \<Rightarrow> stop + test_dict" where
  "record_of tc =
     (case time_of tc of
        Inl e \<Rightarrow> Inl e
      | Inr x \<Rightarrow> Inr \<lparr>name = name_of tc, class_key = class_of tc,
                      status = status_of tc, duration = x\<rparr>)"

fun testcases_of :: "xml_file \<Rightarrow> element list" where
  "testcases_of (p, ParseError e) = []"
| "testcases_of (p, Testcases tcs) = tcs"

definition collected :: "tree \<Rightarrow> element list" where
  "collected t = concat (map testcases_of (glob t))"


text \<open>The line printed for a report that does not parse: its path and the cause.\<close>

fun report :: "xml_file \<Rightarrow> string" where
  "report (p, ParseError e) = ''Error parsing '' @ p @ '': '' @ e"
| "report (p, Testcases tcs) = []"

text \<open>What one element does to the counters and flags (the effect of lines 41 to 55).\<close>

definition seen :: "element \<Rightarrow> metrics \<Rightarrow> metrics" where
  "seen tc m = track_output (name_of tc) (text_of tc) m"

definition latency_hit :: "element \<Rightarrow> bool" where
  "latency_hit tc = (str_in ''Latency'' (text_of tc) \<or> str_in ''latency'' (text_of tc))"

definition two_hit :: "element \<Rightarrow> bool" where
  "two_hit tc = (str_in ''TwoPlayers'' (name_of tc) \<and> str_in ''PASS'' (text_of tc))"

definition three_hit :: "element \<Rightarrow> bool" where
  "three_hit tc = (str_in ''ThreePlayer'' (name_of tc) \<and> str_in ''PASS'' (text_of tc))"

definition four_hit :: "element \<Rightarrow> bool" where
  "four_hit tc = (str_in ''FourPlayer'' (name_of tc) \<and> str_in ''PASS'' (text_of tc))"

text \<open>
  The matching rule of the specification for the latency counter, in its words: a
  case-insensitive substring match on \<^verbatim>\<open>latency\<close>.
\<close>

definition spec_latency_match :: "string \<Rightarrow> bool" where
  "spec_latency_match text = str_in ''latency'' (map lower_char text)"

subsection \<open>Sample reports\<close>

text \<open>Small inputs on which the theorems below are run.\<close>

definition testcase_element :: "string \<Rightarrow> string option \<Rightarrow> string option \<Rightarrow> bool \<Rightarrow> element" where
  "testcase_element n t out failed =
     \<lparr>get_name = Some n, get_classname = Some ''NetworkTests'', get_time = t,
      find_system_out = (case out of None \<Rightarrow> None | Some s \<Rightarrow> Some (Some s)),
      find_failure = failed\<rparr>"

definition both_markers :: element where
  "both_markers = testcase_element ''TwoPlayersThreePlayer'' None (Some ''PASS'') False"

definition two_players_scenario :: element where
  "two_players_scenario =
     testcase_element ''TwoPlayersScenario'' (Some ''0.5'') (Some ''Latency OK - PASS'') False"

definition first_timed :: element where
  "first_timed = testcase_element ''First'' (Some ''1.0'') None False"

definition second_timed :: element where
  "second_timed = testcase_element ''Second'' (Some ''3.0'') None False"

definition bad_time :: element where
  "bad_time = testcase_element ''Handshake'' (Some ''abc'') None False"

definition upper_latency :: element where
  "upper_latency = testcase_element ''Ping'' (Some ''0.25'') (Some ''LATENCY 12ms'') False"





definition both_markers_dir :: tree where
  "both_markers_dir = Directory [(''results/run.xml'', Testcases [both_markers])]"

definition scenario_dir :: tree where
  "scenario_dir = Directory [(''results/run.xml'', Testcases [two_players_scenario])]"

definition timing_dir :: tree where
  "timing_dir = Directory [(''results/run.xml'', Testcases [first_timed, second_timed])]"

definition bad_time_dir :: tree where
  "bad_time_dir = Directory [(''results/run.xml'', Testcases [first_timed, bad_time])]"



definition upper_latency_dir :: tree where
  "upper_latency_dir = Directory [(''results/run.xml'', Testcases [upper_latency])]"


definition zero_latency :: latency_dict where
  "zero_latency = \<lparr>average = PyInt 0, min_key = 0, max_key = 0, samples = 0\<rparr>"

definition zero_bandwidth :: bandwidth_dict where
  "zero_bandwidth = \<lparr>upstream = 0, downstream = 0, peak = 0\<rparr>"

definition no_scenarios :: scenarios_dict where
  "no_scenarios = \<lparr>twoPlayers = False, threePlayers = False, fourPlayers = False\<rparr>"

definition passed :: "string \<Rightarrow> real \<Rightarrow> test_dict" where
  "passed n x = \<lparr>name = n, class_key = ''NetworkTests'', status = PASS, duration = x\<rparr>"

definition both_markers_metrics :: metrics where
  "both_markers_metrics =
     \<lparr>latency = zero_latency\<lparr>average := PyFloat 0\<rparr>, bandwidth = zero_bandwidth,
      scenarios = no_scenarios\<lparr>twoPlayers := True\<rparr>,
      tests = [passed ''TwoPlayersThreePlayer'' 0]\<rparr>"

definition scenario_metrics :: metrics where
  "scenario_metrics =
     \<lparr>latency = zero_latency\<lparr>average := PyFloat (1 / 2), samples := 1\<rparr>,
      bandwidth = zero_bandwidth, scenarios = no_scenarios\<lparr>twoPlayers := True\<rparr>,
      tests = [passed ''TwoPlayersScenario'' (1 / 2)]\<rparr>"

definition timing_metrics :: metrics where
  "timing_metrics =
     \<lparr>latency = zero_latency\<lparr>average := PyFloat 2\<rparr>, bandwidth = zero_bandwidth,
      scenarios = no_scenarios, tests = [passed ''First'' 1, passed ''Second'' 3]\<rparr>"

definition first_metrics :: metrics where
  "first_metrics =
     \<lparr>latency = zero_latency, bandwidth = zero_bandwidth, scenarios = no_scenarios,
      tests = [passed ''First'' 1]\<rparr>"

definition upper_latency_metrics :: metrics where
  "upper_latency_metrics =
     \<lparr>latency = zero_latency\<lparr>average := PyFloat (1 / 4)\<rparr>, bandwidth = zero_bandwidth,
      scenarios = no_scenarios, tests = [passed ''Ping'' (1 / 4)]\<rparr>"



definition program :: string where
  "program = ''generate_network_report.py''"



section \<open>Properties\<close>

subsection \<open>Substrings\<close>

lemma starts_with_iff: "starts_with needle hay \<longleftrightarrow> (\<exists>s. hay = needle @ s)"
  by (induction needle hay rule: starts_with.induct) auto

text \<open>\<open>str_in\<close> is the substring relation.\<close>

lemma str_in_iff: "str_in needle hay \<longleftrightarrow> (\<exists>p s. hay = p @ needle @ s)"
proof (induction hay)
  case Nil
  then show ?case by auto
next
  case (Cons h hs)
  show ?case
  proof
    assume "str_in needle (h # hs)"
    then consider "starts_with needle (h # hs)" | "str_in needle hs" by auto
    then show "\<exists>p s. h # hs = p @ needle @ s"
    proof cases
      case 1
      then obtain s where "h # hs = needle @ s" by (auto simp: starts_with_iff)
      then have "h # hs = [] @ needle @ s" by simp
      then show ?thesis by blast
    next
      case 2
      with Cons.IH obtain p s where "hs = p @ needle @ s" by auto
      then have "h # hs = (h # p) @ needle @ s" by simp
      then show ?thesis by blast
    qed
  next
    assume "\<exists>p s. h # hs = p @ needle @ s"
    then obtain p s where eq: "h # hs = p @ needle @ s" by auto
    show "str_in needle (h # hs)"
    proof (cases p)
      case Nil
      with eq have "starts_with needle (h # hs)" by (auto simp: starts_with_iff)
      then show ?thesis by simp
    next
      case (Cons a p')
      with eq have "hs = p' @ needle @ s" by simp
      with Cons.IH have "str_in needle hs" by auto
      then show ?thesis by simp
    qed
  qed
qed

subsection \<open>One element\<close>

lemma track_output_Nil: "track_output n [] m = m"
  by (simp add: track_output_def)

lemma process_testcase_Inr:
  assumes "process_testcase tc m = Inr m'"
  shows "\<exists>e. record_of tc = Inr e \<and> m' = (seen tc m)\<lparr>tests := tests (seen tc m) @ [e]\<rparr>"
  using assms
  by (auto simp: process_testcase_def seen_def name_of_def text_of_def record_of_def class_of_def
        status_of_def track_output_Nil Let_def split: sum.splits option.splits if_splits)

lemma process_testcase_Inl: "process_testcase tc m = Inl e \<longleftrightarrow> time_of tc = Inl e"
  by (auto simp: process_testcase_def Let_def split: sum.splits)

lemma seen_tests: "tests (seen tc m) = tests m"
  by (simp add: seen_def track_output_def Let_def)

lemma seen_bandwidth: "bandwidth (seen tc m) = bandwidth m"
  by (simp add: seen_def track_output_def Let_def)

lemma seen_reserved:
  "average (latency (seen tc m)) = average (latency m)"
  "min_key (latency (seen tc m)) = min_key (latency m)"
  "max_key (latency (seen tc m)) = max_key (latency m)"
  by (simp_all add: seen_def track_output_def Let_def)

lemma seen_samples:
  "samples (latency (seen tc m)) = samples (latency m) + (if latency_hit tc then 1 else 0)"
  by (simp add: seen_def track_output_def latency_hit_def Let_def)

lemma seen_two: "twoPlayers (scenarios (seen tc m)) = (twoPlayers (scenarios m) \<or> two_hit tc)"
  by (auto simp add: seen_def track_output_def two_hit_def Let_def)

lemma seen_three:
  "threePlayers (scenarios (seen tc m)) =
     (threePlayers (scenarios m) \<or> (three_hit tc \<and> \<not> two_hit tc))"
  by (auto simp add: seen_def track_output_def two_hit_def three_hit_def Let_def)

lemma seen_four:
  "fourPlayers (scenarios (seen tc m)) =
     (fourPlayers (scenarios m) \<or> (four_hit tc \<and> \<not> two_hit tc \<and> \<not> three_hit tc))"
  by (auto simp add: seen_def track_output_def two_hit_def three_hit_def four_hit_def Let_def)

text \<open>What one round of the inner loop does to each part of the dictionary.\<close>

lemma step_fields:
  assumes "process_testcase tc m = Inr m'"
  shows "map Inr (tests m') = map Inr (tests m) @ [record_of tc]"
    and "bandwidth m' = bandwidth m"
    and "average (latency m') = average (latency m)"
    and "min_key (latency m') = min_key (latency m)"
    and "max_key (latency m') = max_key (latency m)"
    and "samples (latency m') = samples (latency m) + (if latency_hit tc then 1 else 0)"
    and "twoPlayers (scenarios m') = (twoPlayers (scenarios m) \<or> two_hit tc)"
    and "threePlayers (scenarios m') =
           (threePlayers (scenarios m) \<or> (three_hit tc \<and> \<not> two_hit tc))"
    and "fourPlayers (scenarios m') =
           (fourPlayers (scenarios m) \<or> (four_hit tc \<and> \<not> two_hit tc \<and> \<not> three_hit tc))"
proof -
  from process_testcase_Inr [OF assms] obtain e
    where e: "record_of tc = Inr e" and m': "m' = (seen tc m)\<lparr>tests := tests (seen tc m) @ [e]\<rparr>"
    by blast
  show "map Inr (tests m') = map Inr (tests m) @ [record_of tc]"
    by (simp add: m' e seen_tests)
  show "bandwidth m' = bandwidth m"
    by (simp add: m' seen_bandwidth)
  show "average (latency m') = average (latency m)"
    and "min_key (latency m') = min_key (latency m)"
    and "max_key (latency m') = max_key (latency m)"
    by (simp_all add: m' seen_reserved)
  show "samples (latency m') = samples (latency m) + (if latency_hit tc then 1 else 0)"
    by (simp add: m' seen_samples)
  show "twoPlayers (scenarios m') = (twoPlayers (scenarios m) \<or> two_hit tc)"
    by (simp add: m' seen_two)
  show "threePlayers (scenarios m') =
          (threePlayers (scenarios m) \<or> (three_hit tc \<and> \<not> two_hit tc))"
    by (simp add: m' seen_three)
  show "fourPlayers (scenarios m') =
          (fourPlayers (scenarios m) \<or> (four_hit tc \<and> \<not> two_hit tc \<and> \<not> three_hit tc))"
    by (simp add: m' seen_four)
qed

subsection \<open>The inner loop\<close>

lemma process_testcases_Cons:
  assumes "process_testcases (tc # tcs) m = Inr m'"
  obtains m1 where "process_testcase tc m = Inr m1" and "process_testcases tcs m1 = Inr m'"
  using assms by (auto split: sum.splits)

lemma process_testcases_all:
  "process_testcases tcs m = Inr m' \<Longrightarrow>
     map Inr (tests m') = map Inr (tests m) @ map record_of tcs
   \<and> bandwidth m' = bandwidth m
   \<and> average (latency m') = average (latency m)
   \<and> min_key (latency m') = min_key (latency m)
   \<and> max_key (latency m') = max_key (latency m)
   \<and> samples (latency m') = samples (latency m) + int (length (filter latency_hit tcs))
   \<and> twoPlayers (scenarios m') = (twoPlayers (scenarios m) \<or> (\<exists>tc \<in> set tcs. two_hit tc))
   \<and> threePlayers (scenarios m') =
        (threePlayers (scenarios m) \<or> (\<exists>tc \<in> set tcs. three_hit tc \<and> \<not> two_hit tc))
   \<and> fourPlayers (scenarios m') =
        (fourPlayers (scenarios m) \<or>
         (\<exists>tc \<in> set tcs. four_hit tc \<and> \<not> two_hit tc \<and> \<not> three_hit tc))"
proof (induction tcs arbitrary: m)
  case Nil
  then show ?case by simp
next
  case (Cons tc tcs)
  from Cons.prems obtain m1
    where s: "process_testcase tc m = Inr m1" and r: "process_testcases tcs m1 = Inr m'"
    by (rule process_testcases_Cons)
  note ih = Cons.IH [OF r] and st = step_fields [OF s]
  from ih st have "map Inr (tests m') = map Inr (tests m) @ map record_of (tc # tcs)"
    by simp
  moreover from ih st have "bandwidth m' = bandwidth m"
    by simp
  moreover from ih st have "average (latency m') = average (latency m)"
    and "min_key (latency m') = min_key (latency m)"
    and "max_key (latency m') = max_key (latency m)"
    by simp_all
  moreover from ih st
  have "samples (latency m') = samples (latency m) + int (length (filter latency_hit (tc # tcs)))"
    by simp
  moreover from ih st
  have "twoPlayers (scenarios m') = (twoPlayers (scenarios m) \<or> (\<exists>x \<in> set (tc # tcs). two_hit x))"
    by auto
  moreover from ih st
  have "threePlayers (scenarios m') =
          (threePlayers (scenarios m) \<or> (\<exists>x \<in> set (tc # tcs). three_hit x \<and> \<not> two_hit x))"
    by auto
  moreover from ih st
  have "fourPlayers (scenarios m') =
          (fourPlayers (scenarios m) \<or>
           (\<exists>x \<in> set (tc # tcs). four_hit x \<and> \<not> two_hit x \<and> \<not> three_hit x))"
    by auto
  ultimately show ?case by blast
qed

lemmas process_testcases_fields =
  process_testcases_all [THEN conjunct1]
  process_testcases_all [THEN conjunct2, THEN conjunct1]
  process_testcases_all [THEN conjunct2, THEN conjunct2, THEN conjunct1]
  process_testcases_all [THEN conjunct2, THEN conjunct2, THEN conjunct2, THEN conjunct1]
  process_testcases_all [THEN conjunct2, THEN conjunct2, THEN conjunct2, THEN conjunct2,
    THEN conjunct1]
  process_testcases_all [THEN conjunct2, THEN conjunct2, THEN conjunct2, THEN conjunct2,
    THEN conjunct2, THEN conjunct1]
  process_testcases_all [THEN conjunct2, THEN conjunct2, THEN conjunct2, THEN conjunct2,
    THEN conjunct2, THEN conjunct2, THEN conjunct1]
  process_testcases_all [THEN conjunct2, THEN conjunct2, THEN conjunct2, THEN conjunct2,
    THEN conjunct2, THEN conjunct2, THEN conjunct2, THEN conjunct1]
  process_testcases_all [THEN conjunct2, THEN conjunct2, THEN conjunct2, THEN conjunct2,
    THEN conjunct2, THEN conjunct2, THEN conjunct2, THEN conjunct2]

text \<open>The inner loop runs through exactly when every duration can be read.\<close>

lemma process_testcases_Inr_iff:
  "(\<exists>m'. process_testcases tcs m = Inr m') \<longleftrightarrow> (\<forall>tc \<in> set tcs. \<exists>x. time_of tc = Inr x)"
proof (induction tcs arbitrary: m)
  case Nil
  then show ?case by simp
next
  case (Cons tc tcs)
  show ?case
  proof (cases "process_testcase tc m")
    case (Inl e)
    then have "time_of tc = Inl e" by (simp add: process_testcase_Inl)
    with Inl show ?thesis by auto
  next
    case (Inr m1)
    have "\<exists>x. time_of tc = Inr x"
    proof (cases "time_of tc")
      case (Inl e)
      then have "process_testcase tc m = Inl e" by (simp add: process_testcase_Inl)
      with Inr show ?thesis by simp
    next
      case (Inr x)
      then show ?thesis by blast
    qed
    with Inr Cons.IH [of m1] show ?thesis by simp
  qed
qed

lemma process_testcases_append:
  "process_testcases (xs @ ys) m =
     (case process_testcases xs m of Inl e \<Rightarrow> Inl e | Inr m' \<Rightarrow> process_testcases ys m')"
  by (induction xs arbitrary: m) (auto split: sum.splits)

subsection \<open>The outer loop and the whole function\<close>

text \<open>
  The dictionary at the end of the outer loop is that of the inner loop run over the
  collected elements: a report that does not parse contributes nothing.
\<close>

lemma process_files_fst:
  "fst (process_files fs m out) = process_testcases (concat (map testcases_of fs)) m"
  by (induction fs m out rule: process_files.induct)
     (auto simp: process_testcases_append split: sum.splits)


lemma calculate_averages_initial: "calculate_averages initial_metrics = initial_metrics"
  by (simp add: calculate_averages_def initial_metrics_def)

lemma parse_test_results_fst:
  "fst (parse_test_results test_dir t) =
     map_sum id calculate_averages (process_testcases (collected t) initial_metrics)"
proof (cases "glob t = []")
  case True
  then show ?thesis
    by (simp add: parse_test_results_def collected_def calculate_averages_initial)
next
  case False
  have "fst (process_files (glob t) initial_metrics []) =
          process_testcases (collected t) initial_metrics"
    by (simp add: process_files_fst collected_def)
  with False show ?thesis
    by (cases "process_files (glob t) initial_metrics []")
       (auto simp: parse_test_results_def Let_def split: sum.splits)
qed

lemma parse_test_results_Inr:
  assumes "fst (parse_test_results test_dir t) = Inr m"
  obtains m0 where "process_testcases (collected t) initial_metrics = Inr m0"
    and "m = calculate_averages m0"
  using assms unfolding parse_test_results_fst
  by (cases "process_testcases (collected t) initial_metrics") auto


lemma calculate_averages_fields:
  "tests (calculate_averages m) = tests m"
  "bandwidth (calculate_averages m) = bandwidth m"
  "scenarios (calculate_averages m) = scenarios m"
  "min_key (latency (calculate_averages m)) = min_key (latency m)"
  "max_key (latency (calculate_averages m)) = max_key (latency m)"
  "samples (latency (calculate_averages m)) = samples (latency m)"
  by (simp_all add: calculate_averages_def Let_def)


subsection \<open>The summary of a run that returns\<close>


lemma run_flags:
  assumes "fst (parse_test_results test_dir t) = Inr m"
  shows "twoPlayers (scenarios m) \<longleftrightarrow> (\<exists>tc \<in> set (collected t). two_hit tc)"
    and "threePlayers (scenarios m) \<longleftrightarrow>
           (\<exists>tc \<in> set (collected t). three_hit tc \<and> \<not> two_hit tc)"
    and "fourPlayers (scenarios m) \<longleftrightarrow>
           (\<exists>tc \<in> set (collected t). four_hit tc \<and> \<not> two_hit tc \<and> \<not> three_hit tc)"
proof -
  from assms obtain m0
    where run: "process_testcases (collected t) initial_metrics = Inr m0"
      and m: "m = calculate_averages m0"
    by (rule parse_test_results_Inr)
  have flags: "scenarios m = scenarios m0"
    by (simp add: m calculate_averages_fields)
  show "twoPlayers (scenarios m) \<longleftrightarrow> (\<exists>tc \<in> set (collected t). two_hit tc)"
    using process_testcases_fields(7) [OF run] by (simp add: flags initial_metrics_def)
  show "threePlayers (scenarios m) \<longleftrightarrow>
          (\<exists>tc \<in> set (collected t). three_hit tc \<and> \<not> two_hit tc)"
    using process_testcases_fields(8) [OF run] by (simp add: flags initial_metrics_def)
  show "fourPlayers (scenarios m) \<longleftrightarrow>
          (\<exists>tc \<in> set (collected t). four_hit tc \<and> \<not> two_hit tc \<and> \<not> three_hit tc)"
    using process_testcases_fields(9) [OF run] by (simp add: flags initial_metrics_def)
qed

lemma run_samples:
  assumes "fst (parse_test_results test_dir t) = Inr m"
  shows "samples (latency m) = int (length (filter latency_hit (collected t)))"
proof -
  from assms obtain m0
    where run: "process_testcases (collected t) initial_metrics = Inr m0"
      and m: "m = calculate_averages m0"
    by (rule parse_test_results_Inr)
  from process_testcases_fields(6) [OF run] show ?thesis
    by (simp add: m calculate_averages_fields initial_metrics_def)
qed

lemma run_reserved:
  assumes "fst (parse_test_results test_dir t) = Inr m"
  shows "bandwidth m = \<lparr>upstream = 0, downstream = 0, peak = 0\<rparr>"
    and "min_key (latency m) = 0"
    and "max_key (latency m) = 0"
proof -
  from assms obtain m0
    where run: "process_testcases (collected t) initial_metrics = Inr m0"
      and m: "m = calculate_averages m0"
    by (rule parse_test_results_Inr)
  show "bandwidth m = \<lparr>upstream = 0, downstream = 0, peak = 0\<rparr>"
    using process_testcases_fields(2) [OF run]
    by (simp add: m calculate_averages_fields initial_metrics_def)
  show "min_key (latency m) = 0"
    using process_testcases_fields(4) [OF run]
    by (simp add: m calculate_averages_fields initial_metrics_def)
  show "max_key (latency m) = 0"
    using process_testcases_fields(5) [OF run]
    by (simp add: m calculate_averages_fields initial_metrics_def)
qed


text \<open>A run returns exactly when the duration of every collected element can be read.\<close>

lemma run_returns_iff:
  "(\<exists>m. fst (parse_test_results test_dir t) = Inr m) \<longleftrightarrow>
     (\<forall>tc \<in> set (collected t). \<exists>x. time_of tc = Inr x)"
proof -
  have "(\<exists>m. fst (parse_test_results test_dir t) = Inr m) \<longleftrightarrow>
          (\<exists>m0. process_testcases (collected t) initial_metrics = Inr m0)"
    unfolding parse_test_results_fst
    by (cases "process_testcases (collected t) initial_metrics") auto
  then show ?thesis
    by (simp add: process_testcases_Inr_iff)
qed

text \<open>An element whose duration cannot be read stops the run, wherever it stands.\<close>

lemma run_stops:
  assumes "tc \<in> set (collected t)" and "time_of tc = Inl e"
  shows "\<exists>e'. fst (parse_test_results test_dir t) = Inl e'"
proof (cases "fst (parse_test_results test_dir t)")
  case (Inl e')
  then show ?thesis by blast
next
  case (Inr m)
  then have "\<forall>tc \<in> set (collected t). \<exists>x. time_of tc = Inr x"
    using run_returns_iff [of test_dir t] by blast
  with assms show ?thesis by auto
qed




subsection \<open>The artifact\<close>

lemma main_written:
  assumes "written (main argv trees writable) = Some (file, j)"
  obtains m where "fst (parse_test_results (argv ! 1) (trees (argv ! 1))) = Inr m"
    and "j = to_json m"
proof (cases "length argv < 2")
  case True
  with assms show ?thesis by (simp add: main_def)
next
  case False
  obtain r out where p: "parse_test_results (argv ! 1) (trees (argv ! 1)) = (r, out)"
    by (cases "parse_test_results (argv ! 1) (trees (argv ! 1))")
  show ?thesis
  proof (cases r)
    case (Inl e)
    with assms False p show ?thesis by (simp add: main_def Let_def)
  next
    case (Inr m)
    with assms False p have "j = to_json m"
      by (simp add: main_def Let_def split: if_splits)
    with Inr p that show ?thesis by simp
  qed
qed

lemma to_json_reserved:
  "at_path [''bandwidth'', ''upstream''] (to_json m) = Some (JInt (upstream (bandwidth m)))"
  "at_path [''bandwidth'', ''downstream''] (to_json m) = Some (JInt (downstream (bandwidth m)))"
  "at_path [''bandwidth'', ''peak''] (to_json m) = Some (JInt (peak (bandwidth m)))"
  "at_path [''latency'', ''min''] (to_json m) = Some (JInt (min_key (latency m)))"
  "at_path [''latency'', ''max''] (to_json m) = Some (JInt (max_key (latency m)))"
  by (simp_all add: to_json_def)

subsection \<open>The order of the enumeration\<close>


section \<open>The claims\<close>

subsection \<open>C1: the scenario flags\<close>

text \<open>
  C1, as stated, fails. The claim says that each of the three scenario flags is true
  exactly when some collected record has the flag's marker in its name and \<^verbatim>\<open>PASS\<close> in its
  diagnostic text, even when the name holds more than one marker. The three tests of the
  script are chained with \<^verbatim>\<open>elif\<close>: a record sets one flag at most. Here a single record
  named \<^verbatim>\<open>TwoPlayersThreePlayer\<close> with the text \<^verbatim>\<open>PASS\<close> is collected; the run returns
  \<open>both_markers_metrics\<close>, in which \<open>threePlayers\<close> is false.
\<close>

theorem C1_counterexample:
  "parse_test_results ''results'' both_markers_dir = (Inr both_markers_metrics, [])
   \<and> collected both_markers_dir = [both_markers]
   \<and> str_in ''ThreePlayer'' (name_of both_markers)
   \<and> str_in ''PASS'' (text_of both_markers)
   \<and> \<not> threePlayers (scenarios both_markers_metrics)"
  by code_simp

text \<open>
  C1, amended: in a run that returns, \<open>twoPlayers\<close> is true iff some collected record has
  \<^verbatim>\<open>TwoPlayers\<close> in its name and \<^verbatim>\<open>PASS\<close> in its diagnostic text; \<open>threePlayers\<close> is true iff
  some collected record has \<^verbatim>\<open>ThreePlayer\<close> but not \<^verbatim>\<open>TwoPlayers\<close> in its name and \<^verbatim>\<open>PASS\<close>
  in its text; \<open>fourPlayers\<close> is true iff some collected record has \<^verbatim>\<open>FourPlayer\<close> but
  neither \<^verbatim>\<open>TwoPlayers\<close> nor \<^verbatim>\<open>ThreePlayer\<close> in its name and \<^verbatim>\<open>PASS\<close> in its text.
\<close>

theorem C1_scenario_flags:
  assumes "fst (parse_test_results test_dir t) = Inr m"
  shows "(twoPlayers (scenarios m) \<longleftrightarrow>
            (\<exists>tc \<in> set (collected t).
               str_in ''TwoPlayers'' (name_of tc) \<and> str_in ''PASS'' (text_of tc)))
       \<and> (threePlayers (scenarios m) \<longleftrightarrow>
            (\<exists>tc \<in> set (collected t).
               str_in ''ThreePlayer'' (name_of tc) \<and> \<not> str_in ''TwoPlayers'' (name_of tc)
               \<and> str_in ''PASS'' (text_of tc)))
       \<and> (fourPlayers (scenarios m) \<longleftrightarrow>
            (\<exists>tc \<in> set (collected t).
               str_in ''FourPlayer'' (name_of tc) \<and> \<not> str_in ''TwoPlayers'' (name_of tc)
               \<and> \<not> str_in ''ThreePlayer'' (name_of tc) \<and> str_in ''PASS'' (text_of tc)))"
proof -
  from run_flags(1) [OF assms] have "twoPlayers (scenarios m) \<longleftrightarrow>
      (\<exists>tc \<in> set (collected t).
         str_in ''TwoPlayers'' (name_of tc) \<and> str_in ''PASS'' (text_of tc))"
    by (simp add: two_hit_def)
  moreover from run_flags(2) [OF assms] have "threePlayers (scenarios m) \<longleftrightarrow>
      (\<exists>tc \<in> set (collected t).
         str_in ''ThreePlayer'' (name_of tc) \<and> \<not> str_in ''TwoPlayers'' (name_of tc)
         \<and> str_in ''PASS'' (text_of tc))"
    unfolding two_hit_def three_hit_def by blast
  moreover from run_flags(3) [OF assms] have "fourPlayers (scenarios m) \<longleftrightarrow>
      (\<exists>tc \<in> set (collected t).
         str_in ''FourPlayer'' (name_of tc) \<and> \<not> str_in ''TwoPlayers'' (name_of tc)
         \<and> \<not> str_in ''ThreePlayer'' (name_of tc) \<and> str_in ''PASS'' (text_of tc))"
    unfolding two_hit_def three_hit_def four_hit_def by blast
  ultimately show ?thesis by blast
qed

text \<open>
  C1, amended, on the record \<^verbatim>\<open>TwoPlayersScenario\<close> with the text \<^verbatim>\<open>Latency OK - PASS\<close>:
  the run returns \<open>scenario_metrics\<close>, and the three equivalences hold there.
\<close>

theorem C1_scenario_flags_witness:
  "fst (parse_test_results ''results'' scenario_dir) = Inr scenario_metrics
   \<and> (twoPlayers (scenarios scenario_metrics) \<longleftrightarrow>
        (\<exists>tc \<in> set (collected scenario_dir).
           str_in ''TwoPlayers'' (name_of tc) \<and> str_in ''PASS'' (text_of tc)))
   \<and> (threePlayers (scenarios scenario_metrics) \<longleftrightarrow>
        (\<exists>tc \<in> set (collected scenario_dir).
           str_in ''ThreePlayer'' (name_of tc) \<and> \<not> str_in ''TwoPlayers'' (name_of tc)
           \<and> str_in ''PASS'' (text_of tc)))
   \<and> (fourPlayers (scenarios scenario_metrics) \<longleftrightarrow>
        (\<exists>tc \<in> set (collected scenario_dir).
           str_in ''FourPlayer'' (name_of tc) \<and> \<not> str_in ''TwoPlayers'' (name_of tc)
           \<and> \<not> str_in ''ThreePlayer'' (name_of tc) \<and> str_in ''PASS'' (text_of tc)))"
proof -
  have run: "fst (parse_test_results ''results'' scenario_dir) = Inr scenario_metrics"
    by code_simp
  from run C1_scenario_flags [OF run] show ?thesis by (rule conjI)
qed

subsection \<open>C2: the average duration\<close>



subsection \<open>C3: reading the duration\<close>

text \<open>
  C3, as stated, fails. The claim says that a missing or non-numeric \<^verbatim>\<open>time\<close> attribute
  yields the duration 0.0 and never raises. The script calls \<^verbatim>\<open>float\<close> on the attribute
  and catches \<^verbatim>\<open>ET.ParseError\<close> only. Here the second test case of the only report has
  \<^verbatim>\<open>time="abc"\<close>: \<^verbatim>\<open>float\<close> raises \<^verbatim>\<open>ValueError\<close> and the run ends with it, with no summary.
\<close>

theorem C3_counterexample:
  "collected bad_time_dir = [first_timed, bad_time]
   \<and> get_time bad_time = Some ''abc''
   \<and> time_of bad_time = Inl ValueError
   \<and> parse_test_results ''results'' bad_time_dir = (Inl ValueError, [])"
  by code_simp

text \<open>
  C3, amended: a missing \<^verbatim>\<open>time\<close> attribute yields the duration 0.0, and the round of the
  loop over such an element raises nothing. A \<^verbatim>\<open>time\<close> attribute that \<^verbatim>\<open>float\<close> rejects
  raises \<^verbatim>\<open>ValueError\<close>, which nothing catches: a run that collects such an element is
  aborted and returns no summary.
\<close>

theorem C3_duration:
  "(get_time tc = None \<longrightarrow>
      time_of tc = Inr 0
      \<and> (\<exists>e. record_of tc = Inr e \<and> duration e = 0)
      \<and> (\<exists>m'. process_testcase tc m = Inr m'))
   \<and> (tc' \<in> set (collected t) \<and> get_time tc' = Some s \<and> py_float s = Inl ValueError \<longrightarrow>
        time_of tc' = Inl ValueError \<and> (\<exists>e. fst (parse_test_results test_dir t) = Inl e))"
proof (intro conjI impI)
  assume "get_time tc = None"
  then show zero: "time_of tc = Inr 0"
    by (simp add: time_of_def)
  then show "\<exists>e. record_of tc = Inr e \<and> duration e = 0"
    by (simp add: record_of_def)
  from zero show "\<exists>m'. process_testcase tc m = Inr m'"
    by (cases "process_testcase tc m") (simp_all add: process_testcase_Inl)
next
  assume a: "tc' \<in> set (collected t) \<and> get_time tc' = Some s \<and> py_float s = Inl ValueError"
  then show "time_of tc' = Inl ValueError"
    by (simp add: time_of_def)
  with a show "\<exists>e. fst (parse_test_results test_dir t) = Inl e"
    by (blast intro: run_stops)
qed

text \<open>
  C3, amended, on an element without \<^verbatim>\<open>time\<close> and on the element with \<^verbatim>\<open>time="abc"\<close> in
  its directory.
\<close>

theorem C3_duration_witness:
  "get_time both_markers = None
   \<and> time_of both_markers = Inr 0
   \<and> (\<exists>e. record_of both_markers = Inr e \<and> duration e = 0)
   \<and> (\<exists>m'. process_testcase both_markers initial_metrics = Inr m')
   \<and> bad_time \<in> set (collected bad_time_dir)
   \<and> get_time bad_time = Some ''abc''
   \<and> py_float ''abc'' = Inl ValueError
   \<and> time_of bad_time = Inl ValueError
   \<and> (\<exists>e. fst (parse_test_results ''results'' bad_time_dir) = Inl e)"
proof -
  have missing: "get_time both_markers = None"
    by code_simp
  have present: "bad_time \<in> set (collected bad_time_dir) \<and> get_time bad_time = Some ''abc''
      \<and> py_float ''abc'' = Inl ValueError"
    by code_simp
  from C3_duration [of both_markers initial_metrics bad_time bad_time_dir "''abc''" "''results''"]
    missing present
  show ?thesis by blast
qed

subsection \<open>C4: reports that do not parse\<close>




subsection \<open>C5: the latency counter\<close>

text \<open>
  C5, as stated, fails. The claim says that \<open>latency.samples\<close> counts the records whose
  diagnostic text contains \<^verbatim>\<open>latency\<close> in any capitalisation. The script looks for the two
  spellings \<^verbatim>\<open>Latency\<close> and \<^verbatim>\<open>latency\<close>. Here the only record has the text
  \<^verbatim>\<open>LATENCY 12ms\<close>, which the case-insensitive rule matches, and the counter stays at 0.
\<close>

theorem C5_counterexample:
  "collected upper_latency_dir = [upper_latency]
   \<and> text_of upper_latency = ''LATENCY 12ms''
   \<and> spec_latency_match (text_of upper_latency)
   \<and> parse_test_results ''results'' upper_latency_dir = (Inr upper_latency_metrics, [])
   \<and> samples (latency upper_latency_metrics) = 0"
  by code_simp

text \<open>
  C5, amended: in a run that returns, \<open>latency.samples\<close> is the number of collected
  records whose diagnostic text contains \<^verbatim>\<open>Latency\<close> or \<^verbatim>\<open>latency\<close>, in exactly one of
  these two spellings; each record counts once.
\<close>

theorem C5_samples:
  assumes "fst (parse_test_results test_dir t) = Inr m"
  shows "samples (latency m) =
           int (length (filter (\<lambda>tc. str_in ''Latency'' (text_of tc) \<or> str_in ''latency'' (text_of tc))
                          (collected t)))"
proof -
  have "latency_hit = (\<lambda>tc. str_in ''Latency'' (text_of tc) \<or> str_in ''latency'' (text_of tc))"
    by (rule ext) (simp add: latency_hit_def)
  with run_samples [OF assms] show ?thesis by simp
qed

text \<open>C5, amended, on the record with the text \<^verbatim>\<open>Latency OK - PASS\<close>: the counter is 1.\<close>

theorem C5_samples_witness:
  "fst (parse_test_results ''results'' scenario_dir) = Inr scenario_metrics
   \<and> samples (latency scenario_metrics) =
       int (length (filter (\<lambda>tc. str_in ''Latency'' (text_of tc) \<or> str_in ''latency'' (text_of tc))
                      (collected scenario_dir)))
   \<and> samples (latency scenario_metrics) = 1"
proof -
  have run: "fst (parse_test_results ''results'' scenario_dir) = Inr scenario_metrics"
    by code_simp
  have one: "samples (latency scenario_metrics) = 1"
    by code_simp
  from run C5_samples [OF run] one show ?thesis by blast
qed

subsection \<open>C6: a root directory that does not exist\<close>




subsection \<open>C7: the missing argument\<close>



subsection \<open>C8: the reserved fields\<close>

text \<open>
  C8: no round of the loop over the test cases changes \<open>bandwidth\<close>, \<open>latency.min\<close> or
  \<open>latency.max\<close>, and whenever the program writes an artifact, the document written has
  the fields \<open>bandwidth.upstream\<close>, \<open>bandwidth.downstream\<close>, \<open>bandwidth.peak\<close>,
  \<open>latency.min\<close> and \<open>latency.max\<close>, each with the integer 0.
\<close>

theorem C8_reserved_fields:
  "(process_testcase tc m0 = Inr m1 \<longrightarrow>
      bandwidth m1 = bandwidth m0 \<and> min_key (latency m1) = min_key (latency m0)
      \<and> max_key (latency m1) = max_key (latency m0))
   \<and> (written (main argv trees writable) = Some (file, j) \<longrightarrow>
        at_path [''bandwidth'', ''upstream''] j = Some (JInt 0)
        \<and> at_path [''bandwidth'', ''downstream''] j = Some (JInt 0)
        \<and> at_path [''bandwidth'', ''peak''] j = Some (JInt 0)
        \<and> at_path [''latency'', ''min''] j = Some (JInt 0)
        \<and> at_path [''latency'', ''max''] j = Some (JInt 0))"
proof (intro conjI impI)
  assume step: "process_testcase tc m0 = Inr m1"
  from step_fields(2) [OF step] show "bandwidth m1 = bandwidth m0" .
  from step_fields(4) [OF step] show "min_key (latency m1) = min_key (latency m0)" .
  from step_fields(5) [OF step] show "max_key (latency m1) = max_key (latency m0)" .
next
  assume "written (main argv trees writable) = Some (file, j)"
  then obtain m where run: "fst (parse_test_results (argv ! 1) (trees (argv ! 1))) = Inr m"
    and j: "j = to_json m"
    by (rule main_written)
  note zero = run_reserved [OF run]
  show "at_path [''bandwidth'', ''upstream''] j = Some (JInt 0)"
    unfolding j to_json_reserved by (simp add: zero)
  show "at_path [''bandwidth'', ''downstream''] j = Some (JInt 0)"
    unfolding j to_json_reserved by (simp add: zero)
  show "at_path [''bandwidth'', ''peak''] j = Some (JInt 0)"
    unfolding j to_json_reserved by (simp add: zero)
  show "at_path [''latency'', ''min''] j = Some (JInt 0)"
    unfolding j to_json_reserved by (simp add: zero)
  show "at_path [''latency'', ''max''] j = Some (JInt 0)"
    unfolding j to_json_reserved by (simp add: zero)
qed

text \<open>
  C8 on the first round over the test case \<^verbatim>\<open>First\<close> and on the run of the program over the
  directory with two test cases.
\<close>

theorem C8_reserved_fields_witness:
  "process_testcase first_timed initial_metrics = Inr first_metrics
   \<and> written (main [program, ''results''] (\<lambda>path. timing_dir) (\<lambda>path. True)) =
       Some (''network_metrics.json'', to_json timing_metrics)
   \<and> bandwidth first_metrics = bandwidth initial_metrics
   \<and> min_key (latency first_metrics) = min_key (latency initial_metrics)
   \<and> max_key (latency first_metrics) = max_key (latency initial_metrics)
   \<and> at_path [''bandwidth'', ''upstream''] (to_json timing_metrics) = Some (JInt 0)
   \<and> at_path [''bandwidth'', ''downstream''] (to_json timing_metrics) = Some (JInt 0)
   \<and> at_path [''bandwidth'', ''peak''] (to_json timing_metrics) = Some (JInt 0)
   \<and> at_path [''latency'', ''min''] (to_json timing_metrics) = Some (JInt 0)
   \<and> at_path [''latency'', ''max''] (to_json timing_metrics) = Some (JInt 0)"
proof -
  have step: "process_testcase first_timed initial_metrics = Inr first_metrics"
    by code_simp
  have run: "written (main [program, ''results''] (\<lambda>path. timing_dir) (\<lambda>path. True)) =
      Some (''network_metrics.json'', to_json timing_metrics)"
    by code_simp
  from C8_reserved_fields [of first_timed initial_metrics first_metrics
      "[program, ''results'']" "\<lambda>path. timing_dir" "\<lambda>path. True" "''network_metrics.json''"
      "to_json timing_metrics"] step run
  show ?thesis by blast
qed

subsection \<open>C9: two runs on the same directory\<close>




subsection \<open>C10: failed test cases and the scenario flags\<close>



end
